theory Spec2Isabelle
  imports Complex_Main
begin

section \<open>Exceptions, dialogs and the library interface\<close>

text \<open>
  The program (\<^verbatim>\<open>mpr_visualization.py\<close>) is a Tk application around three libraries:
  SimpleITK (series reading, volume indexing), numpy/matplotlib (arrays, colour maps,
  rendering) and scipy (the Gaussian filter). The libraries are not part of the
  repository, so every library call is a field of a record that the program's
  functions take as their first argument.

  A Python exception is a value. All exceptions below are subclasses of
  \<^verbatim>\<open>Exception\<close>, which is what the two \<^verbatim>\<open>except Exception\<close> handlers of
  the source catch; \<open>RuntimeError\<close> stands for whatever a library call raises.
\<close>

datatype py_exception =
    ValueError string
  | TypeError string
  | UnboundLocalError string
  | KeyError string
  | RuntimeError string

text \<open>A name between single quotes, as Python's messages print it.\<close>

definition quoted :: "string \<Rightarrow> string" where
  "quoted v = CHR 0x27 # v @ [CHR 0x27]"

text \<open>
  \<^verbatim>\<open>f"{e}"\<close>: the text of an exception. \<open>UnboundLocalError\<close> carries the name of the
  variable (the text is the one of Python up to 3.10).
\<close>

fun str_exc :: "py_exception \<Rightarrow> string" where
  "str_exc (ValueError m) = m"
| "str_exc (TypeError m) = m"
| "str_exc (UnboundLocalError v) =
     ''local variable '' @ quoted v @ '' referenced before assignment''"
| "str_exc (KeyError k) = k"
| "str_exc (RuntimeError m) = m"

text \<open>The modal message boxes of \<^verbatim>\<open>tkinter.messagebox\<close>, with title and text.\<close>

datatype dialog =
    ShowError string string
  | ShowWarning string string
  | ShowInfo string string

text \<open>
  A subscript of a SimpleITK image: \<^verbatim>\<open>image[:, :, index]\<close> is
  \<open>(Full, Full, At index)\<close>.
\<close>

datatype axis_index = Full | At int

type_synonym subscript = "axis_index \<times> axis_index \<times> axis_index"

text \<open>
  The library calls the source makes. \<open>'img\<close> is a SimpleITK image (a volume or a slice
  of one), \<open>'arr\<close> a numpy array, \<open>'photo\<close> a Tk photo image. The calls made inside a
  \<^verbatim>\<open>try\<close> block on the function's input, and the thumbnail pipeline of
  \<^verbatim>\<open>capture_snapshot\<close>, may raise; constructing the series reader and the array
  operations of the rendering path are taken to return.
  \<open>GetSize\<close> is the size \<open>(sx, sy, sz)\<close> of a three-dimensional image.
  \<open>make_photo\<close> is \<^verbatim>\<open>ImageTk.PhotoImage(Image.fromarray(a).resize((300, 300), Image.ANTIALIAS))\<close>.
\<close>

record ('img, 'arr, 'photo) library =
  GetGDCMSeriesFileNames :: "string \<Rightarrow> py_exception + string list"
  SetFileNames :: "string list \<Rightarrow> py_exception + unit"
  Execute :: "string list \<Rightarrow> py_exception + 'img"
  GetSize :: "'img \<Rightarrow> nat \<times> nat \<times> nat"
  getitem :: "'img \<Rightarrow> subscript \<Rightarrow> py_exception + 'img"
  GetArrayFromImage :: "'img \<Rightarrow> py_exception + 'arr"
  astype_float32 :: "'arr \<Rightarrow> 'arr"
  np_max :: "'arr \<Rightarrow> real"
  np_divide :: "'arr \<Rightarrow> real \<Rightarrow> 'arr"
  get_cmap :: "string \<Rightarrow> 'arr \<Rightarrow> 'arr"
  rgb_channels :: "'arr \<Rightarrow> 'arr"
  gaussian_filter :: "'arr \<Rightarrow> int \<Rightarrow> 'arr"
  make_photo :: "'arr \<Rightarrow> py_exception + 'photo"

text \<open>Sequencing of calls that may raise: the first exception ends the block.\<close>

definition and_then :: "'e + 'a \<Rightarrow> ('a \<Rightarrow> 'e + 'b) \<Rightarrow> 'e + 'b" where
  "and_then r f = (case r of Inl e \<Rightarrow> Inl e | Inr x \<Rightarrow> f x)"

text \<open>A \<^verbatim>\<open>for\<close> loop over a list whose body may raise.\<close>

fun for_each :: "('s \<Rightarrow> 'a \<Rightarrow> 'e + 's) \<Rightarrow> 'a list \<Rightarrow> 's \<Rightarrow> 'e + 's" where
  "for_each body [] s = Inr s"
| "for_each body (x # xs) s = and_then (body s x) (for_each body xs)"

text \<open>\<^verbatim>\<open>d[k]\<close> on a dictionary raises \<^verbatim>\<open>KeyError\<close> for a missing key.\<close>

definition dict_get :: "(string \<rightharpoonup> 'v) \<Rightarrow> string \<Rightarrow> py_exception + 'v" where
  "dict_get d k = (case d k of None \<Rightarrow> Inl (KeyError k) | Some v \<Rightarrow> Inr v)"

section \<open>Loading a series and extracting a slice\<close>

text \<open>The body of the \<^verbatim>\<open>try\<close> block of \<^verbatim>\<open>load_dicom_series\<close>.\<close>

definition load_dicom_series_try ::
  "('img, 'arr, 'photo) library \<Rightarrow> string \<Rightarrow> py_exception + 'img" where
  "load_dicom_series_try L directory =
     and_then (GetGDCMSeriesFileNames L directory) (\<lambda>dicom_names.
       if dicom_names = []
       then Inl (ValueError ''No DICOM files found in the selected directory.'')
       else and_then (SetFileNames L dicom_names) (\<lambda>_. Execute L dicom_names))"

text \<open>
  \<^verbatim>\<open>load_dicom_series\<close>: the dialogs shown and the returned image, \<open>None\<close> for
  Python's \<^verbatim>\<open>None\<close>.
\<close>

definition load_dicom_series ::
  "('img, 'arr, 'photo) library \<Rightarrow> string \<Rightarrow> dialog list \<times> 'img option" where
  "load_dicom_series L directory =
     (case load_dicom_series_try L directory of
        Inr image' \<Rightarrow> ([], Some image')
      | Inl e \<Rightarrow> ([ShowError ''Error'' (''Failed to load DICOM series: '' @ str_exc e)], None))"

text \<open>
  Subscripting \<^verbatim>\<open>self.image\<close>, which is \<^verbatim>\<open>None\<close> until a series has been
  loaded: subscripting \<^verbatim>\<open>None\<close> raises \<^verbatim>\<open>TypeError\<close>.
\<close>

definition none_not_subscriptable :: py_exception where
  "none_not_subscriptable = TypeError (quoted ''NoneType'' @ '' object is not subscriptable'')"

definition subscript_image ::
  "('img, 'arr, 'photo) library \<Rightarrow> 'img option \<Rightarrow> subscript \<Rightarrow> py_exception + 'img" where
  "subscript_image L image' sub =
     (case image' of
        None \<Rightarrow> Inl none_not_subscriptable
      | Some img \<Rightarrow> getitem L img sub)"

text \<open>
  The body of the \<^verbatim>\<open>try\<close> block of \<^verbatim>\<open>extract_slice\<close>. The local variable
  \<^verbatim>\<open>slice_image\<close> is bound only in the three branches; reading it unbound raises
  \<^verbatim>\<open>UnboundLocalError\<close>.
\<close>

definition extract_slice_try ::
  "('img, 'arr, 'photo) library \<Rightarrow> 'img option \<Rightarrow> string \<Rightarrow> int \<Rightarrow> py_exception + 'arr" where
  "extract_slice_try L image' plane index =
     and_then
       (if plane = ''axial'' then map_sum id Some (subscript_image L image' (Full, Full, At index))
        else if plane = ''coronal'' then map_sum id Some (subscript_image L image' (Full, At index, Full))
        else if plane = ''sagittal'' then map_sum id Some (subscript_image L image' (At index, Full, Full))
        else Inr None)
       (\<lambda>slice_image.
          case slice_image of
            None \<Rightarrow> Inl (UnboundLocalError ''slice_image'')
          | Some sl \<Rightarrow> GetArrayFromImage L sl)"

definition extract_slice ::
  "('img, 'arr, 'photo) library \<Rightarrow> 'img option \<Rightarrow> string \<Rightarrow> int \<Rightarrow> dialog list \<times> 'arr option" where
  "extract_slice L image' plane index =
     (case extract_slice_try L image' plane index of
        Inr a \<Rightarrow> ([], Some a)
      | Inl e \<Rightarrow> ([ShowError ''Error'' (''Failed to extract slice: '' @ str_exc e)], None))"

section \<open>Rendering, colour maps and the filter\<close>

text \<open>What a view canvas shows: the arguments of the last \<^verbatim>\<open>ax.imshow(X, cmap=...)\<close>.\<close>

datatype 'arr axes_image = Imshow (shown: 'arr) (cmap: string)

definition apply_color_map :: "('img, 'arr, 'photo) library \<Rightarrow> 'arr \<Rightarrow> string \<Rightarrow> 'arr" where
  "apply_color_map L image' color_map =
     (if np_max L image' > 0
      then rgb_channels L (get_cmap L color_map (np_divide L image' (np_max L image')))
      else image')"

definition apply_filter :: "('img, 'arr, 'photo) library \<Rightarrow> 'arr \<Rightarrow> string \<Rightarrow> 'arr" where
  "apply_filter L image' filter_type =
     (if filter_type = ''Gaussian'' then gaussian_filter L image' 1 else image')"

text \<open>
  \<^verbatim>\<open>display_slice\<close>: the dialogs shown and what the canvas shows afterwards. On a
  failed extraction the function returns early and the canvas keeps its figure.
\<close>

definition display_slice ::
  "('img, 'arr, 'photo) library \<Rightarrow> 'arr axes_image option \<Rightarrow> 'img option \<Rightarrow> string \<Rightarrow> int \<Rightarrow> string
     \<Rightarrow> dialog list \<times> 'arr axes_image option" where
  "display_slice L canvas' image' plane index color_map =
     (case extract_slice L image' plane index of
        (boxes, None) \<Rightarrow> (boxes, canvas')
      | (boxes, Some slice_image) \<Rightarrow>
          (let slice_image1 = astype_float32 L slice_image;
               slice_image2 = (if color_map \<noteq> ''gray''
                               then apply_color_map L slice_image1 color_map
                               else slice_image1)
           in (boxes, Some (Imshow slice_image2 color_map))))"

section \<open>The application state and its event handlers\<close>

text \<open>
  The attributes of \<^verbatim>\<open>MPRApp\<close>. The two dictionaries are maps from plane names.
  \<open>scroll_to\<close> is the \<^verbatim>\<open>to\<close> option of the slider of a plane (its \<^verbatim>\<open>from_\<close>
  option is set to 0 when the slider is created and never changed), \<open>canvas\<close> what the view
  canvas of a plane shows, \<open>snapshot_canvas\<close> the photo kept on the snapshot canvas of a
  plane, and \<open>dialogs\<close> the message boxes shown so far, oldest first.
\<close>

record ('img, 'arr, 'photo) MPRApp =
  self_image :: "'img option"
  current_indices :: "string \<rightharpoonup> int"
  max_indices :: "string \<rightharpoonup> int"
  color_map_var :: string
  filter_var :: string
  scroll_to :: "string \<Rightarrow> int"
  canvas :: "string \<Rightarrow> 'arr axes_image option"
  snapshot_canvas :: "string \<Rightarrow> 'photo option"
  dialogs :: "dialog list"

definition scroll_from :: int where
  "scroll_from = 0"

text \<open>The list the three \<^verbatim>\<open>for plane in [...]\<close> loops run over.\<close>

definition planes :: "string list" where
  "planes = [''axial'', ''coronal'', ''sagittal'']"

text \<open>\<^verbatim>\<open>MPRApp.__init__\<close> and \<^verbatim>\<open>create_widgets\<close>.\<close>

definition init_app :: "('img, 'arr, 'photo) MPRApp" where
  "init_app =
     \<lparr> self_image = None,
       current_indices = [''axial'' \<mapsto> 0, ''coronal'' \<mapsto> 0, ''sagittal'' \<mapsto> 0],
       max_indices = [''axial'' \<mapsto> 0, ''coronal'' \<mapsto> 0, ''sagittal'' \<mapsto> 0],
       color_map_var = ''gray'',
       filter_var = ''None'',
       scroll_to = (\<lambda>_. 0),
       canvas = (\<lambda>_. None),
       snapshot_canvas = (\<lambda>_. None),
       dialogs = [] \<rparr>"

text \<open>One round of the loop of \<^verbatim>\<open>update_all_views\<close>.\<close>

definition update_view ::
  "('img, 'arr, 'photo) library \<Rightarrow> ('img, 'arr, 'photo) MPRApp \<Rightarrow> string
     \<Rightarrow> py_exception + ('img, 'arr, 'photo) MPRApp" where
  "update_view L s plane =
     and_then (dict_get (current_indices s) plane) (\<lambda>index.
       case display_slice L (canvas s plane) (self_image s) plane index (color_map_var s) of
         (boxes, c) \<Rightarrow>
           Inr (s\<lparr>canvas := (canvas s)(plane := c), dialogs := dialogs s @ boxes\<rparr>))"

definition update_all_views ::
  "('img, 'arr, 'photo) library \<Rightarrow> ('img, 'arr, 'photo) MPRApp
     \<Rightarrow> py_exception + ('img, 'arr, 'photo) MPRApp" where
  "update_all_views L s = for_each (update_view L) planes s"

text \<open>
  \<^verbatim>\<open>on_scroll\<close>, the command of the three sliders: a slider calls it with its plane and
  its value, which Tk keeps between the slider's \<^verbatim>\<open>from_\<close> and \<^verbatim>\<open>to\<close>.
\<close>

definition on_scroll ::
  "('img, 'arr, 'photo) library \<Rightarrow> ('img, 'arr, 'photo) MPRApp \<Rightarrow> string \<Rightarrow> int
     \<Rightarrow> py_exception + ('img, 'arr, 'photo) MPRApp" where
  "on_scroll L s plane index =
     update_all_views L (s\<lparr>current_indices := (current_indices s)(plane \<mapsto> index)\<rparr>)"

text \<open>One round of the loop of \<^verbatim>\<open>change_slice\<close>.\<close>

definition change_slice_plane ::
  "int \<Rightarrow> ('img, 'arr, 'photo) MPRApp \<Rightarrow> string \<Rightarrow> py_exception + ('img, 'arr, 'photo) MPRApp" where
  "change_slice_plane direction s plane =
     and_then (dict_get (current_indices s) plane) (\<lambda>old.
       let s1 = s\<lparr>current_indices := (current_indices s)(plane \<mapsto> old + direction)\<rparr>
       in and_then (dict_get (current_indices s1) plane) (\<lambda>cur.
            if cur < 0
            then Inr (s1\<lparr>current_indices := (current_indices s1)(plane \<mapsto> 0)\<rparr>)
            else and_then (dict_get (max_indices s1) plane) (\<lambda>m.
                   if cur > m
                   then Inr (s1\<lparr>current_indices := (current_indices s1)(plane \<mapsto> m)\<rparr>)
                   else Inr s1)))"

definition change_slice ::
  "('img, 'arr, 'photo) library \<Rightarrow> ('img, 'arr, 'photo) MPRApp \<Rightarrow> int
     \<Rightarrow> py_exception + ('img, 'arr, 'photo) MPRApp" where
  "change_slice L s direction =
     and_then (for_each (change_slice_plane direction) planes s) (update_all_views L)"

text \<open>The key bindings of \<^verbatim>\<open>create_widgets\<close>.\<close>

datatype key = Left | Right

definition key_direction :: "key \<Rightarrow> int" where
  "key_direction k = (case k of Left \<Rightarrow> - 1 | Right \<Rightarrow> 1)"

definition on_key ::
  "('img, 'arr, 'photo) library \<Rightarrow> ('img, 'arr, 'photo) MPRApp \<Rightarrow> key
     \<Rightarrow> py_exception + ('img, 'arr, 'photo) MPRApp" where
  "on_key L s k = change_slice L s (key_direction k)"

text \<open>
  The two option menus set their variable and then call their command;
  \<^verbatim>\<open>update_filter\<close> and \<^verbatim>\<open>update_color_map\<close> both only redraw the views.
\<close>

definition update_filter ::
  "('img, 'arr, 'photo) library \<Rightarrow> ('img, 'arr, 'photo) MPRApp
     \<Rightarrow> py_exception + ('img, 'arr, 'photo) MPRApp" where
  "update_filter L s = update_all_views L s"

definition update_color_map ::
  "('img, 'arr, 'photo) library \<Rightarrow> ('img, 'arr, 'photo) MPRApp
     \<Rightarrow> py_exception + ('img, 'arr, 'photo) MPRApp" where
  "update_color_map L s = update_all_views L s"

definition select_filter ::
  "('img, 'arr, 'photo) library \<Rightarrow> ('img, 'arr, 'photo) MPRApp \<Rightarrow> string
     \<Rightarrow> py_exception + ('img, 'arr, 'photo) MPRApp" where
  "select_filter L s choice = update_filter L (s\<lparr>filter_var := choice\<rparr>)"

definition select_color_map ::
  "('img, 'arr, 'photo) library \<Rightarrow> ('img, 'arr, 'photo) MPRApp \<Rightarrow> string
     \<Rightarrow> py_exception + ('img, 'arr, 'photo) MPRApp" where
  "select_color_map L s choice = update_color_map L (s\<lparr>color_map_var := choice\<rparr>)"

text \<open>
  \<^verbatim>\<open>load_dicom\<close>, with the directory the user picked in the folder dialog (empty when
  the dialog was cancelled). The two loops after the assignment of \<open>max_indices\<close> are
  the \<^verbatim>\<open>for\<close> loop over the midpoints and the three \<^verbatim>\<open>config(to=...)\<close> calls.
\<close>

definition set_midpoint ::
  "('img, 'arr, 'photo) MPRApp \<Rightarrow> string \<Rightarrow> py_exception + ('img, 'arr, 'photo) MPRApp" where
  "set_midpoint s plane =
     and_then (dict_get (max_indices s) plane) (\<lambda>m.
       Inr (s\<lparr>current_indices := (current_indices s)(plane \<mapsto> m div 2)\<rparr>))"

definition config_to ::
  "('img, 'arr, 'photo) MPRApp \<Rightarrow> string \<Rightarrow> py_exception + ('img, 'arr, 'photo) MPRApp" where
  "config_to s plane =
     and_then (dict_get (max_indices s) plane) (\<lambda>m.
       Inr (s\<lparr>scroll_to := (scroll_to s)(plane := m)\<rparr>))"

definition load_dicom ::
  "('img, 'arr, 'photo) library \<Rightarrow> ('img, 'arr, 'photo) MPRApp \<Rightarrow> string
     \<Rightarrow> py_exception + ('img, 'arr, 'photo) MPRApp" where
  "load_dicom L s dicom_dir =
     (if dicom_dir \<noteq> []
      then (case load_dicom_series L dicom_dir of
              (boxes, loaded) \<Rightarrow>
                (let s1 = s\<lparr>self_image := loaded, dialogs := dialogs s @ boxes\<rparr>
                 in case loaded of
                      Some img \<Rightarrow>
                        (case GetSize L img of
                           (sx, sy, sz) \<Rightarrow>
                             (let s2 = s1\<lparr>max_indices :=
                                           [''axial'' \<mapsto> int sz - 1,
                                            ''coronal'' \<mapsto> int sy - 1,
                                            ''sagittal'' \<mapsto> int sx - 1]\<rparr>
                              in and_then (for_each set_midpoint planes s2) (\<lambda>s3.
                                 and_then (for_each config_to planes s3) (\<lambda>s4.
                                 and_then (update_all_views L s4) (\<lambda>s5.
                                   Inr (s5\<lparr>dialogs := dialogs s5 @
                                          [ShowInfo ''Loaded'' ''DICOM series loaded successfully!'']\<rparr>))))))
                    | None \<Rightarrow>
                        Inr (s1\<lparr>dialogs := dialogs s1 @
                               [ShowWarning ''Error'' ''Failed to load the DICOM series.'']\<rparr>)))
      else Inr (s\<lparr>dialogs := dialogs s @
                  [ShowWarning ''Error'' ''Please select a valid directory.'']\<rparr>))"

text \<open>\<^verbatim>\<open>capture_snapshot\<close>, the command of the three snapshot buttons.\<close>

definition capture_snapshot ::
  "('img, 'arr, 'photo) library \<Rightarrow> ('img, 'arr, 'photo) MPRApp \<Rightarrow> string
     \<Rightarrow> py_exception + ('img, 'arr, 'photo) MPRApp" where
  "capture_snapshot L s plane =
     and_then (dict_get (current_indices s) plane) (\<lambda>index.
       case extract_slice L (self_image s) plane index of
         (boxes, None) \<Rightarrow> Inr (s\<lparr>dialogs := dialogs s @ boxes\<rparr>)
       | (boxes, Some snapshot_image) \<Rightarrow>
           (let filter_type = filter_var s;
                snapshot_image1 = (if filter_type \<noteq> ''None''
                                   then apply_filter L snapshot_image filter_type
                                   else snapshot_image)
            in and_then (make_photo L snapshot_image1) (\<lambda>tk_image.
                 Inr (s\<lparr>snapshot_canvas := (snapshot_canvas s)(plane := Some tk_image),
                        dialogs := dialogs s @ boxes\<rparr>))))"

section \<open>Properties of states, and a sequence of key presses\<close>

text \<open>A handler returned, and the state it left satisfies \<open>P\<close>.\<close>

definition returns :: "'e + 'a \<Rightarrow> ('a \<Rightarrow> bool) \<Rightarrow> bool" where
  "returns r P = (case r of Inl _ \<Rightarrow> False | Inr x \<Rightarrow> P x)"

text \<open>Both dictionaries have an entry for each of the three planes.\<close>

definition has_planes :: "('img, 'arr, 'photo) MPRApp \<Rightarrow> bool" where
  "has_planes s =
     list_all (\<lambda>p. current_indices s p \<noteq> None \<and> max_indices s p \<noteq> None) planes"

text \<open>The maximum index of each of the three planes is not negative.\<close>

definition max_nonneg :: "('img, 'arr, 'photo) MPRApp \<Rightarrow> bool" where
  "max_nonneg s =
     list_all (\<lambda>p. case max_indices s p of Some m \<Rightarrow> 0 \<le> m | None \<Rightarrow> False) planes"

text \<open>The current index of each of the three planes lies in \<open>[0, max index]\<close>.\<close>

definition in_range :: "('img, 'arr, 'photo) MPRApp \<Rightarrow> bool" where
  "in_range s =
     list_all (\<lambda>p. case (current_indices s p, max_indices s p) of
                      (Some c, Some m) \<Rightarrow> 0 \<le> c \<and> c \<le> m
                    | _ \<Rightarrow> False) planes"

text \<open>
  The specification's clamping of a value to \<open>[lo, hi]\<close>, and the index it gives a plane for
  one step in a direction.
\<close>

definition clamp :: "int \<Rightarrow> int \<Rightarrow> int \<Rightarrow> int" where
  "clamp x lo hi = max lo (min x hi)"

definition clamped_step :: "('img, 'arr, 'photo) MPRApp \<Rightarrow> int \<Rightarrow> string \<Rightarrow> int option" where
  "clamped_step s direction p =
     (case (current_indices s p, max_indices s p) of
        (Some c, Some m) \<Rightarrow> Some (clamp (c + direction) 0 m)
      | _ \<Rightarrow> None)"

text \<open>
  The index one round of the loop of \<^verbatim>\<open>change_slice\<close> leaves in a plane whose index was
  \<open>c\<close> and whose maximum index is \<open>m\<close>: the two branches of the source, in their order.
\<close>

definition step_index :: "int \<Rightarrow> int \<Rightarrow> int \<Rightarrow> int" where
  "step_index c direction m =
     (if c + direction < 0 then 0 else if c + direction > m then m else c + direction)"

text \<open>A sequence of calls of \<^verbatim>\<open>change_slice\<close>, one for each direction of the list.\<close>

fun change_slice_seq ::
  "('img, 'arr, 'photo) library \<Rightarrow> ('img, 'arr, 'photo) MPRApp \<Rightarrow> int list
     \<Rightarrow> py_exception + ('img, 'arr, 'photo) MPRApp" where
  "change_slice_seq L s [] = Inr s"
| "change_slice_seq L s (d # ds) = and_then (change_slice L s d) (\<lambda>s'. change_slice_seq L s' ds)"

text \<open>What the view canvas of a plane shows after a handler, \<open>None\<close> if the handler raised.\<close>

definition view_after ::
  "py_exception + ('img, 'arr, 'photo) MPRApp \<Rightarrow> string \<Rightarrow> 'arr axes_image option" where
  "view_after r plane = (case r of Inl _ \<Rightarrow> None | Inr s \<Rightarrow> canvas s plane)"

section \<open>A small library instance\<close>

text \<open>
  A stand-in for the libraries, for running the handlers on concrete inputs. A volume is
  given by its size; the slice at index \<open>k\<close> of any plane is the array \<open>[k, k + 1]\<close>;
  an index outside the volume raises. One directory holds a series of size \<open>(4, 3, 2)\<close>,
  one cannot be read and every other directory holds no DICOM file. The colour map and the
  blur are simple arithmetic on the pixels, the blur not the identity.
\<close>

datatype stub_image = Volume nat nat nat | Plane "real list"

fun stub_getitem :: "stub_image \<Rightarrow> subscript \<Rightarrow> py_exception + stub_image" where
  "stub_getitem (Volume sx sy sz) (Full, Full, At k) =
     (if 0 \<le> k \<and> k < int sz then Inr (Plane [of_int k, of_int k + 1])
      else Inl (RuntimeError ''index out of bounds''))"
| "stub_getitem (Volume sx sy sz) (Full, At k, Full) =
     (if 0 \<le> k \<and> k < int sy then Inr (Plane [of_int k, of_int k + 1])
      else Inl (RuntimeError ''index out of bounds''))"
| "stub_getitem (Volume sx sy sz) (At k, Full, Full) =
     (if 0 \<le> k \<and> k < int sx then Inr (Plane [of_int k, of_int k + 1])
      else Inl (RuntimeError ''index out of bounds''))"
| "stub_getitem _ _ = Inl (RuntimeError ''unsupported subscript'')"

fun stub_size :: "stub_image \<Rightarrow> nat \<times> nat \<times> nat" where
  "stub_size (Volume sx sy sz) = (sx, sy, sz)"
| "stub_size (Plane a) = (length a, 1, 1)"

fun stub_array :: "stub_image \<Rightarrow> py_exception + real list" where
  "stub_array (Plane a) = Inr a"
| "stub_array (Volume sx sy sz) = Inl (RuntimeError ''not a slice'')"

definition stub_library :: "(stub_image, real list, real list) library" where
  "stub_library =
     \<lparr> GetGDCMSeriesFileNames =
         (\<lambda>d. if d = ''/scans/ct'' then Inr [''ct/1.dcm'', ''ct/2.dcm'']
              else if d = ''/scans/locked'' then Inl (RuntimeError ''cannot read directory'')
              else Inr []),
       SetFileNames = (\<lambda>names. Inr ()),
       Execute = (\<lambda>names. Inr (Volume 4 3 2)),
       GetSize = stub_size,
       getitem = stub_getitem,
       GetArrayFromImage = stub_array,
       astype_float32 = (\<lambda>a. a),
       np_max = (\<lambda>a. fold max a 0),
       np_divide = (\<lambda>a m. map (\<lambda>v. v / m) a),
       get_cmap = (\<lambda>name a. map (\<lambda>v. 1 - v) a),
       rgb_channels = (\<lambda>a. a),
       gaussian_filter = (\<lambda>a sigma. map (\<lambda>v. v / 2) a),
       make_photo = (\<lambda>a. Inr a) \<rparr>"

text \<open>The state after the series of size \<open>(4, 3, 2)\<close> has been loaded into a new application.\<close>

definition stub_loaded :: "(stub_image, real list, real list) MPRApp" where
  "stub_loaded =
     \<lparr> self_image = Some (Volume 4 3 2),
       current_indices = [''axial'' \<mapsto> 0, ''coronal'' \<mapsto> 1, ''sagittal'' \<mapsto> 1],
       max_indices = [''axial'' \<mapsto> 1, ''coronal'' \<mapsto> 2, ''sagittal'' \<mapsto> 3],
       color_map_var = ''gray'',
       filter_var = ''None'',
       scroll_to = (\<lambda>_. 0)(''axial'' := 1, ''coronal'' := 2, ''sagittal'' := 3),
       canvas = (\<lambda>_. None)(''axial'' := Some (Imshow [0, 1] ''gray''),
                             ''coronal'' := Some (Imshow [1, 2] ''gray''),
                             ''sagittal'' := Some (Imshow [1, 2] ''gray'')),
       snapshot_canvas = (\<lambda>_. None),
       dialogs = [ShowInfo ''Loaded'' ''DICOM series loaded successfully!''] \<rparr>"

section \<open>The results of the two exception handlers\<close>

text \<open>What the \<^verbatim>\<open>except\<close> branch of \<^verbatim>\<open>load_dicom_series\<close> gives for an exception.\<close>

definition load_failed :: "py_exception \<Rightarrow> dialog list \<times> 'img option" where
  "load_failed e = ([ShowError ''Error'' (''Failed to load DICOM series: '' @ str_exc e)], None)"

text \<open>What the \<^verbatim>\<open>except\<close> branch of \<^verbatim>\<open>extract_slice\<close> gives for an exception.\<close>

definition extract_failed :: "py_exception \<Rightarrow> dialog list \<times> 'arr option" where
  "extract_failed e = ([ShowError ''Error'' (''Failed to extract slice: '' @ str_exc e)], None)"

text \<open>The subscript \<^verbatim>\<open>extract_slice\<close> uses for each of the three planes.\<close>

definition plane_subscript :: "string \<Rightarrow> int \<Rightarrow> subscript \<Rightarrow> bool" where
  "plane_subscript plane index sub =
     (plane = ''axial'' \<and> sub = (Full, Full, At index) \<or>
      plane = ''coronal'' \<and> sub = (Full, At index, Full) \<or>
      plane = ''sagittal'' \<and> sub = (At index, Full, Full))"

section \<open>The handlers return and change only what they write\<close>

text \<open>
  Redrawing the views changes the canvases and the dialog log only, and returns whenever the
  three planes have a current index.
\<close>

lemma returns_mono: "returns r P \<Longrightarrow> (\<And>x. P x \<Longrightarrow> Q x) \<Longrightarrow> returns r Q"
  by (cases r) (simp_all add: returns_def)

lemma update_view_frame:
  "current_indices s plane = Some i \<Longrightarrow>
   \<exists>c b. update_view L s plane = Inr (s\<lparr>canvas := c, dialogs := b\<rparr>)"
  by (auto simp: update_view_def and_then_def dict_get_def split: prod.splits)

lemma update_all_views_frame:
  assumes "current_indices s ''axial'' \<noteq> None"
      and "current_indices s ''coronal'' \<noteq> None"
      and "current_indices s ''sagittal'' \<noteq> None"
  shows "\<exists>c b. update_all_views L s = Inr (s\<lparr>canvas := c, dialogs := b\<rparr>)"
proof -
  from assms(1) obtain c1 b1 where 1: "update_view L s ''axial'' = Inr (s\<lparr>canvas := c1, dialogs := b1\<rparr>)"
    using update_view_frame by fastforce
  let ?s1 = "s\<lparr>canvas := c1, dialogs := b1\<rparr>"
  from assms(2) have "current_indices ?s1 ''coronal'' \<noteq> None" by simp
  then obtain c2 b2 where 2: "update_view L ?s1 ''coronal'' = Inr (?s1\<lparr>canvas := c2, dialogs := b2\<rparr>)"
    using update_view_frame by fastforce
  let ?s2 = "s\<lparr>canvas := c2, dialogs := b2\<rparr>"
  from assms(3) have "current_indices ?s2 ''sagittal'' \<noteq> None" by simp
  then obtain c3 b3 where 3: "update_view L ?s2 ''sagittal'' = Inr (?s2\<lparr>canvas := c3, dialogs := b3\<rparr>)"
    using update_view_frame by fastforce
  have "update_all_views L s = Inr (s\<lparr>canvas := c3, dialogs := b3\<rparr>)"
    using 1 2 3 by (simp add: update_all_views_def planes_def and_then_def)
  then show ?thesis by blast
qed

lemma change_slice_plane_eq:
  "current_indices s p = Some c \<Longrightarrow> max_indices s p = Some m \<Longrightarrow>
   change_slice_plane direction s p =
     Inr (s\<lparr>current_indices := (current_indices s)(p \<mapsto> step_index c direction m)\<rparr>)"
  by (simp add: change_slice_plane_def and_then_def dict_get_def step_index_def Let_def)

lemma change_slice_loop_eq:
  assumes "current_indices s ''axial'' = Some ca" "max_indices s ''axial'' = Some ma"
      and "current_indices s ''coronal'' = Some cc" "max_indices s ''coronal'' = Some mc"
      and "current_indices s ''sagittal'' = Some cs" "max_indices s ''sagittal'' = Some ms"
  shows "for_each (change_slice_plane direction) planes s =
     Inr (s\<lparr>current_indices := (current_indices s)
            (''axial'' \<mapsto> step_index ca direction ma,
             ''coronal'' \<mapsto> step_index cc direction mc,
             ''sagittal'' \<mapsto> step_index cs direction ms)\<rparr>)"
  using assms by (simp add: planes_def and_then_def change_slice_plane_eq)

lemma change_slice_eq:
  assumes "current_indices s ''axial'' = Some ca" "max_indices s ''axial'' = Some ma"
      and "current_indices s ''coronal'' = Some cc" "max_indices s ''coronal'' = Some mc"
      and "current_indices s ''sagittal'' = Some cs" "max_indices s ''sagittal'' = Some ms"
  shows "\<exists>c b. change_slice L s direction =
     Inr (s\<lparr>current_indices := (current_indices s)
            (''axial'' \<mapsto> step_index ca direction ma,
             ''coronal'' \<mapsto> step_index cc direction mc,
             ''sagittal'' \<mapsto> step_index cs direction ms),
            canvas := c, dialogs := b\<rparr>)"
proof -
  let ?t = "s\<lparr>current_indices := (current_indices s)
            (''axial'' \<mapsto> step_index ca direction ma,
             ''coronal'' \<mapsto> step_index cc direction mc,
             ''sagittal'' \<mapsto> step_index cs direction ms)\<rparr>"
  have "\<exists>c b. update_all_views L ?t = Inr (?t\<lparr>canvas := c, dialogs := b\<rparr>)"
    by (rule update_all_views_frame) simp_all
  then show ?thesis
    by (simp add: change_slice_def change_slice_loop_eq [OF assms] and_then_def)
qed

lemma step_index_clamp: "0 \<le> m \<Longrightarrow> step_index c direction m = clamp (c + direction) 0 m"
  by (simp add: step_index_def clamp_def)

lemma step_index_bounds: "0 \<le> m \<Longrightarrow> 0 \<le> step_index c direction m \<and> step_index c direction m \<le> m"
  by (simp add: step_index_def)

lemma step_index_inside: "0 < c \<Longrightarrow> c < m \<Longrightarrow> direction = - 1 \<or> direction = 1 \<Longrightarrow> step_index c direction m = c + direction"
  by (auto simp: step_index_def)

lemma has_planes_iff:
  "has_planes s \<longleftrightarrow>
     (\<exists>ca ma cc mc cs ms.
        current_indices s ''axial'' = Some ca \<and> max_indices s ''axial'' = Some ma \<and>
        current_indices s ''coronal'' = Some cc \<and> max_indices s ''coronal'' = Some mc \<and>
        current_indices s ''sagittal'' = Some cs \<and> max_indices s ''sagittal'' = Some ms)"
  by (auto simp: has_planes_def planes_def)

lemma in_range_iff:
  "in_range s \<longleftrightarrow>
     (\<exists>ca ma cc mc cs ms.
        current_indices s ''axial'' = Some ca \<and> max_indices s ''axial'' = Some ma \<and>
        current_indices s ''coronal'' = Some cc \<and> max_indices s ''coronal'' = Some mc \<and>
        current_indices s ''sagittal'' = Some cs \<and> max_indices s ''sagittal'' = Some ms \<and>
        0 \<le> ca \<and> ca \<le> ma \<and> 0 \<le> cc \<and> cc \<le> mc \<and> 0 \<le> cs \<and> cs \<le> ms)"
  by (auto simp: in_range_def planes_def split: option.splits)

lemma change_slice_in_range:
  assumes "has_planes s" "max_nonneg s"
  shows "returns (change_slice L s direction) (\<lambda>s'. in_range s' \<and> max_indices s' = max_indices s)"
proof -
  from assms(1) obtain ca ma cc mc cs ms where k:
    "current_indices s ''axial'' = Some ca" "max_indices s ''axial'' = Some ma"
    "current_indices s ''coronal'' = Some cc" "max_indices s ''coronal'' = Some mc"
    "current_indices s ''sagittal'' = Some cs" "max_indices s ''sagittal'' = Some ms"
    unfolding has_planes_iff by blast
  from assms(2) k have m: "0 \<le> ma" "0 \<le> mc" "0 \<le> ms"
    by (simp_all add: max_nonneg_def planes_def)
  from change_slice_eq [OF k] obtain c b where
    "change_slice L s direction =
     Inr (s\<lparr>current_indices := (current_indices s)
            (''axial'' \<mapsto> step_index ca direction ma,
             ''coronal'' \<mapsto> step_index cc direction mc,
             ''sagittal'' \<mapsto> step_index cs direction ms),
            canvas := c, dialogs := b\<rparr>)" by blast
  then show ?thesis
    using k m by (simp add: returns_def in_range_iff step_index_bounds)
qed

section \<open>Error handling of slice extraction\<close>

text \<open>
  C9. For a plane argument that is none of \<open>axial\<close>, \<open>coronal\<close> and \<open>sagittal\<close>,
  no branch binds \<^verbatim>\<open>slice_image\<close>; reading it raises \<^verbatim>\<open>UnboundLocalError\<close> inside
  the \<^verbatim>\<open>try\<close> block, the handler shows the error dialog, and \<^verbatim>\<open>extract_slice\<close>
  returns \<open>None\<close>, for every library, image and index.
\<close>

theorem extract_slice_unknown_plane:
  "plane \<noteq> ''axial'' \<Longrightarrow> plane \<noteq> ''coronal'' \<Longrightarrow> plane \<noteq> ''sagittal'' \<Longrightarrow>
   extract_slice L image' plane index =
     ([ShowError ''Error''
         (''Failed to extract slice: '' @ str_exc (UnboundLocalError ''slice_image''))], None)"
  by (simp add: extract_slice_def extract_slice_try_def and_then_def)

theorem extract_slice_unknown_plane_witness:
  "''oblique'' \<noteq> ''axial'' \<and> ''oblique'' \<noteq> ''coronal'' \<and> ''oblique'' \<noteq> ''sagittal'' \<and>
   extract_slice stub_library (Some (Volume 4 3 2)) ''oblique'' 0 =
     ([ShowError ''Error''
         (''Failed to extract slice: '' @ str_exc (UnboundLocalError ''slice_image''))], None)"
  using extract_slice_unknown_plane [of "''oblique''" stub_library "Some (Volume 4 3 2)" 0]
  by simp

section \<open>Slice navigation\<close>

lemma in_range_has_planes: "in_range s \<Longrightarrow> has_planes s"
  unfolding in_range_iff has_planes_iff by blast

lemma in_range_max_nonneg: "in_range s \<Longrightarrow> max_nonneg s"
  unfolding in_range_iff by (auto simp: max_nonneg_def planes_def)

lemma change_slice_seq_in_range:
  "in_range s \<Longrightarrow>
   returns (change_slice_seq L s ds) (\<lambda>s'. in_range s' \<and> max_indices s' = max_indices s)"
proof (induction ds arbitrary: s)
  case Nil
  then show ?case by (simp add: returns_def)
next
  case (Cons d ds)
  have "returns (change_slice L s d) (\<lambda>s'. in_range s' \<and> max_indices s' = max_indices s)"
    using Cons.prems by (simp add: change_slice_in_range in_range_has_planes in_range_max_nonneg)
  then obtain s1 where s1: "change_slice L s d = Inr s1" "in_range s1" "max_indices s1 = max_indices s"
    by (auto simp: returns_def split: sum.splits)
  from Cons.IH [OF s1(2)] s1(3)
  have "returns (change_slice_seq L s1 ds) (\<lambda>s'. in_range s' \<and> max_indices s' = max_indices s)"
    by simp
  then show ?case
    by (simp add: s1(1) and_then_def)
qed

lemma change_slice_clamped:
  assumes "in_range s"
  shows "returns (change_slice L s d)
           (\<lambda>s'. max_indices s' = max_indices s \<and>
                 (\<forall>p\<in>set planes. current_indices s' p = clamped_step s d p))"
proof -
  from assms obtain ca ma cc mc cs ms where k:
    "current_indices s ''axial'' = Some ca" "max_indices s ''axial'' = Some ma"
    "current_indices s ''coronal'' = Some cc" "max_indices s ''coronal'' = Some mc"
    "current_indices s ''sagittal'' = Some cs" "max_indices s ''sagittal'' = Some ms"
    and m: "0 \<le> ma" "0 \<le> mc" "0 \<le> ms"
    unfolding in_range_iff by force
  from change_slice_eq [OF k] obtain c b where
    "change_slice L s d =
     Inr (s\<lparr>current_indices := (current_indices s)
            (''axial'' \<mapsto> step_index ca d ma,
             ''coronal'' \<mapsto> step_index cc d mc,
             ''sagittal'' \<mapsto> step_index cs d ms),
            canvas := c, dialogs := b\<rparr>)" by blast
  then show ?thesis
    using k m by (simp add: returns_def planes_def clamped_step_def step_index_clamp)
qed

text \<open>
  C1. From a state in which the current index of every plane lies in \<open>[0, max index]\<close>, every
  sequence of calls of \<^verbatim>\<open>change_slice\<close> with directions \<open>+1\<close> and \<open>-1\<close> returns and
  leaves every index in \<open>[0, max index]\<close>, the maximum indices unchanged; and a single call
  sets the index of each plane to \<open>clamp (old index + direction) 0 (max index)\<close>.
\<close>

theorem change_slice_keeps_range:
  assumes "in_range s" and "set ds \<subseteq> {- 1, 1}" and "d = - 1 \<or> d = 1"
  shows "returns (change_slice_seq L s ds) (\<lambda>s'. in_range s' \<and> max_indices s' = max_indices s) \<and>
         returns (change_slice L s d)
           (\<lambda>s'. max_indices s' = max_indices s \<and>
                 (\<forall>p\<in>set planes. current_indices s' p = clamped_step s d p))"
  using assms(1) by (simp add: change_slice_seq_in_range change_slice_clamped)

lemma stub_loaded_in_range: "in_range stub_loaded"
  by (simp add: in_range_def stub_loaded_def planes_def)

theorem change_slice_keeps_range_witness:
  "in_range stub_loaded \<and> set [1, 1, - 1] \<subseteq> {- 1, 1 :: int} \<and> ((1::int) = - 1 \<or> (1::int) = 1) \<and>
   returns (change_slice_seq stub_library stub_loaded [1, 1, - 1])
     (\<lambda>s'. in_range s' \<and> max_indices s' = max_indices stub_loaded) \<and>
   returns (change_slice stub_library stub_loaded 1)
     (\<lambda>s'. max_indices s' = max_indices stub_loaded \<and>
           (\<forall>p\<in>set planes. current_indices s' p = clamped_step stub_loaded 1 p))"
proof -
  have h2: "set [1, 1, - 1] \<subseteq> {- 1, 1 :: int}" by simp
  have h3: "(1::int) = - 1 \<or> (1::int) = 1" by simp
  show ?thesis
    using stub_loaded_in_range h2
      change_slice_keeps_range [OF stub_loaded_in_range h2 h3, of stub_library]
    by simp
qed

lemma on_scroll_eq:
  assumes "has_planes s"
  shows "\<exists>c b. on_scroll L s plane index =
     Inr (s\<lparr>current_indices := (current_indices s)(plane \<mapsto> index), canvas := c, dialogs := b\<rparr>)"
proof -
  let ?t = "s\<lparr>current_indices := (current_indices s)(plane \<mapsto> index)\<rparr>"
  have "\<exists>c b. update_all_views L ?t = Inr (?t\<lparr>canvas := c, dialogs := b\<rparr>)"
    using assms unfolding has_planes_iff by (intro update_all_views_frame) auto
  then show ?thesis by (simp add: on_scroll_def)
qed




text \<open>
  C5. An arrow key calls \<^verbatim>\<open>change_slice\<close> with one direction, \<open>-1\<close> or \<open>+1\<close>, which is
  applied to the indices of all three planes in the same call: each plane gets the stepped
  index of the source's two branches, and a plane whose index is strictly inside
  \<open>[0, max index]\<close> moves by exactly the direction.
\<close>

theorem arrow_key_steps_all_planes:
  assumes "has_planes s"
  shows "(key_direction k = - 1 \<or> key_direction k = 1) \<and>
         returns (on_key L s k)
           (\<lambda>s'. \<forall>p\<in>set planes. \<forall>c m.
                 current_indices s p = Some c \<and> max_indices s p = Some m \<longrightarrow>
                   current_indices s' p = Some (step_index c (key_direction k) m) \<and>
                   (0 < c \<and> c < m \<longrightarrow> current_indices s' p = Some (c + key_direction k)))"
proof -
  have d: "key_direction k = - 1 \<or> key_direction k = 1"
    by (cases k) (simp_all add: key_direction_def)
  from assms obtain ca ma cc mc cs ms where k:
    "current_indices s ''axial'' = Some ca" "max_indices s ''axial'' = Some ma"
    "current_indices s ''coronal'' = Some cc" "max_indices s ''coronal'' = Some mc"
    "current_indices s ''sagittal'' = Some cs" "max_indices s ''sagittal'' = Some ms"
    unfolding has_planes_iff by blast
  from change_slice_eq [OF k] obtain c b where
    "change_slice L s (key_direction k) =
     Inr (s\<lparr>current_indices := (current_indices s)
            (''axial'' \<mapsto> step_index ca (key_direction k) ma,
             ''coronal'' \<mapsto> step_index cc (key_direction k) mc,
             ''sagittal'' \<mapsto> step_index cs (key_direction k) ms),
            canvas := c, dialogs := b\<rparr>)" by blast
  then have "returns (on_key L s k)
           (\<lambda>s'. \<forall>p\<in>set planes. \<forall>c m.
                 current_indices s p = Some c \<and> max_indices s p = Some m \<longrightarrow>
                   current_indices s' p = Some (step_index c (key_direction k) m) \<and>
                   (0 < c \<and> c < m \<longrightarrow> current_indices s' p = Some (c + key_direction k)))"
    using k d by (auto simp: on_key_def returns_def planes_def step_index_inside)
  with d show ?thesis by blast
qed

theorem arrow_key_steps_all_planes_witness:
  "has_planes stub_loaded \<and>
   current_indices stub_loaded ''coronal'' = Some 1 \<and>
   max_indices stub_loaded ''coronal'' = Some 2 \<and>
   key_direction Right = 1 \<and>
   returns (on_key stub_library stub_loaded Right)
     (\<lambda>s'. current_indices s' ''coronal'' = Some 2)"
proof -
  have h: "has_planes stub_loaded"
    by (simp add: has_planes_def stub_loaded_def planes_def)
  have c: "current_indices stub_loaded ''coronal'' = Some 1"
    and m: "max_indices stub_loaded ''coronal'' = Some 2"
    by (simp_all add: stub_loaded_def)
  have d: "key_direction Right = 1"
    by (simp add: key_direction_def)
  have p: "''coronal'' \<in> set planes"
    by (simp add: planes_def)
  from arrow_key_steps_all_planes [OF h, of Right stub_library]
  have "returns (on_key stub_library stub_loaded Right)
     (\<lambda>s'. \<forall>p\<in>set planes. \<forall>c m.
           current_indices stub_loaded p = Some c \<and> max_indices stub_loaded p = Some m \<longrightarrow>
             current_indices s' p = Some (step_index c (key_direction Right) m) \<and>
             (0 < c \<and> c < m \<longrightarrow> current_indices s' p = Some (c + key_direction Right)))"
    by blast
  then have "returns (on_key stub_library stub_loaded Right)
     (\<lambda>s'. current_indices s' ''coronal'' = Some 2)"
  proof (rule returns_mono)
    fix s' :: "(stub_image, real list, real list) MPRApp"
    assume "\<forall>p\<in>set planes. \<forall>c m.
           current_indices stub_loaded p = Some c \<and> max_indices stub_loaded p = Some m \<longrightarrow>
             current_indices s' p = Some (step_index c (key_direction Right) m) \<and>
             (0 < c \<and> c < m \<longrightarrow> current_indices s' p = Some (c + key_direction Right))"
    with p c m have "(0::int) < 1 \<and> (1::int) < 2 \<longrightarrow>
        current_indices s' ''coronal'' = Some (1 + key_direction Right)"
      by blast
    then show "current_indices s' ''coronal'' = Some 2"
      by (simp add: d)
  qed
  with h c m d show ?thesis by blast
qed

section \<open>Loading a series into the application\<close>

lemma set_midpoint_loop_eq:
  assumes "max_indices s ''axial'' = Some ma" "max_indices s ''coronal'' = Some mc"
      and "max_indices s ''sagittal'' = Some ms"
  shows "for_each set_midpoint planes s =
     Inr (s\<lparr>current_indices := (current_indices s)
            (''axial'' \<mapsto> ma div 2, ''coronal'' \<mapsto> mc div 2, ''sagittal'' \<mapsto> ms div 2)\<rparr>)"
  using assms by (simp add: planes_def and_then_def set_midpoint_def dict_get_def)

lemma config_to_loop_eq:
  assumes "max_indices s ''axial'' = Some ma" "max_indices s ''coronal'' = Some mc"
      and "max_indices s ''sagittal'' = Some ms"
  shows "for_each config_to planes s =
     Inr (s\<lparr>scroll_to := (scroll_to s)
            (''axial'' := ma, ''coronal'' := mc, ''sagittal'' := ms)\<rparr>)"
  using assms by (simp add: planes_def and_then_def config_to_def dict_get_def)

lemma load_dicom_success:
  assumes "dicom_dir \<noteq> []" and "load_dicom_series L dicom_dir = (boxes, Some img)"
      and "GetSize L img = (sx, sy, sz)"
  shows "returns (load_dicom L s dicom_dir)
     (\<lambda>s'. self_image s' = Some img \<and>
           current_indices s' = (current_indices s)
              (''axial'' \<mapsto> (int sz - 1) div 2,
               ''coronal'' \<mapsto> (int sy - 1) div 2,
               ''sagittal'' \<mapsto> (int sx - 1) div 2) \<and>
           max_indices s' = [''axial'' \<mapsto> int sz - 1,
                            ''coronal'' \<mapsto> int sy - 1,
                            ''sagittal'' \<mapsto> int sx - 1] \<and>
           scroll_to s' = (scroll_to s)
              (''axial'' := int sz - 1, ''coronal'' := int sy - 1, ''sagittal'' := int sx - 1))"
proof -
  let ?s2 = "s\<lparr>self_image := Some img, dialogs := dialogs s @ boxes,
               max_indices := [''axial'' \<mapsto> int sz - 1,
                               ''coronal'' \<mapsto> int sy - 1,
                               ''sagittal'' \<mapsto> int sx - 1]\<rparr>"
  let ?s3 = "?s2\<lparr>current_indices := (current_indices ?s2)
            (''axial'' \<mapsto> (int sz - 1) div 2, ''coronal'' \<mapsto> (int sy - 1) div 2,
             ''sagittal'' \<mapsto> (int sx - 1) div 2)\<rparr>"
  let ?s4 = "?s3\<lparr>scroll_to := (scroll_to ?s3)
            (''axial'' := int sz - 1, ''coronal'' := int sy - 1, ''sagittal'' := int sx - 1)\<rparr>"
  have 3: "for_each set_midpoint planes ?s2 = Inr ?s3"
    by (rule set_midpoint_loop_eq) simp_all
  have 4: "for_each config_to planes ?s3 = Inr ?s4"
    by (rule config_to_loop_eq) simp_all
  have "\<exists>c b. update_all_views L ?s4 = Inr (?s4\<lparr>canvas := c, dialogs := b\<rparr>)"
    by (rule update_all_views_frame) simp_all
  then obtain c b where 5: "update_all_views L ?s4 = Inr (?s4\<lparr>canvas := c, dialogs := b\<rparr>)"
    by blast
  have "load_dicom L s dicom_dir =
     Inr (?s4\<lparr>canvas := c,
              dialogs := b @ [ShowInfo ''Loaded'' ''DICOM series loaded successfully!'']\<rparr>)"
    using assms 3 4 5 by (simp add: load_dicom_def and_then_def)
  then show ?thesis by (simp add: returns_def)
qed

text \<open>
  C4. After a series has loaded, with a volume of size \<open>(sx, sy, sz)\<close>, \<open>max_indices\<close> is
  \<open>sz - 1\<close> for axial, \<open>sy - 1\<close> for coronal and \<open>sx - 1\<close> for sagittal, and the slider of
  each plane ranges from 0 to that maximum index.
\<close>

theorem load_dicom_slider_bounds:
  assumes "dicom_dir \<noteq> []" and "load_dicom_series L dicom_dir = (boxes, Some img)"
      and "GetSize L img = (sx, sy, sz)"
  shows "scroll_from = 0 \<and>
         returns (load_dicom L s dicom_dir)
           (\<lambda>s'. max_indices s' = [''axial'' \<mapsto> int sz - 1,
                                    ''coronal'' \<mapsto> int sy - 1,
                                    ''sagittal'' \<mapsto> int sx - 1] \<and>
                 scroll_to s' ''axial'' = int sz - 1 \<and>
                 scroll_to s' ''coronal'' = int sy - 1 \<and>
                 scroll_to s' ''sagittal'' = int sx - 1)"
  using load_dicom_success [OF assms, of s]
  by (auto simp: returns_def scroll_from_def split: sum.splits)

lemma stub_series_loads:
  "load_dicom_series stub_library ''/scans/ct'' = ([], Some (Volume 4 3 2))"
  by (simp add: load_dicom_series_def load_dicom_series_try_def and_then_def stub_library_def)

lemma stub_series_size: "GetSize stub_library (Volume 4 3 2) = (4, 3, 2)"
  by (simp add: stub_library_def)

theorem load_dicom_slider_bounds_witness:
  "''/scans/ct'' \<noteq> [] \<and>
   load_dicom_series stub_library ''/scans/ct'' = ([], Some (Volume 4 3 2)) \<and>
   GetSize stub_library (Volume 4 3 2) = (4, 3, 2) \<and>
   scroll_from = 0 \<and>
   returns (load_dicom stub_library init_app ''/scans/ct'')
     (\<lambda>s'. max_indices s' = [''axial'' \<mapsto> int 2 - 1,
                              ''coronal'' \<mapsto> int 3 - 1,
                              ''sagittal'' \<mapsto> int 4 - 1] \<and>
           scroll_to s' ''axial'' = int 2 - 1 \<and>
           scroll_to s' ''coronal'' = int 3 - 1 \<and>
           scroll_to s' ''sagittal'' = int 4 - 1)"
proof -
  have h: "''/scans/ct'' \<noteq> []" by simp
  show ?thesis
    using h stub_series_loads stub_series_size
      load_dicom_slider_bounds [OF h stub_series_loads stub_series_size, of init_app]
    by blast
qed

text \<open>
  C10. After a series has loaded, with a volume of size \<open>(sx, sy, sz)\<close>, the current index is
  \<open>(sz - 1) div 2\<close> for axial, \<open>(sy - 1) div 2\<close> for coronal and \<open>(sx - 1) div 2\<close> for
  sagittal, whatever the indices were before.
\<close>

theorem load_dicom_midpoints:
  assumes "dicom_dir \<noteq> []" and "load_dicom_series L dicom_dir = (boxes, Some img)"
      and "GetSize L img = (sx, sy, sz)"
  shows "returns (load_dicom L s dicom_dir)
           (\<lambda>s'. current_indices s' ''axial'' = Some ((int sz - 1) div 2) \<and>
                 current_indices s' ''coronal'' = Some ((int sy - 1) div 2) \<and>
                 current_indices s' ''sagittal'' = Some ((int sx - 1) div 2))"
  using load_dicom_success [OF assms, of s]
  by (auto simp: returns_def split: sum.splits)

theorem load_dicom_midpoints_witness:
  "''/scans/ct'' \<noteq> [] \<and>
   load_dicom_series stub_library ''/scans/ct'' = ([], Some (Volume 4 3 2)) \<and>
   GetSize stub_library (Volume 4 3 2) = (4, 3, 2) \<and>
   returns (load_dicom stub_library stub_loaded ''/scans/ct'')
     (\<lambda>s'. current_indices s' ''axial'' = Some ((int 2 - 1) div 2) \<and>
           current_indices s' ''coronal'' = Some ((int 3 - 1) div 2) \<and>
           current_indices s' ''sagittal'' = Some ((int 4 - 1) div 2))"
proof -
  have h: "''/scans/ct'' \<noteq> []" by simp
  show ?thesis
    using h stub_series_loads stub_series_size
      load_dicom_midpoints [OF h stub_series_loads stub_series_size, of stub_loaded]
    by blast
qed

lemma stub_load: "load_dicom stub_library init_app ''/scans/ct'' = Inr stub_loaded"
  by (simp add: load_dicom_def load_dicom_series_def load_dicom_series_try_def stub_library_def
      and_then_def init_app_def planes_def set_midpoint_def config_to_def dict_get_def
      update_all_views_def update_view_def display_slice_def extract_slice_def extract_slice_try_def
      subscript_image_def stub_loaded_def fun_upd_twist)

section \<open>Error handling of loading and extraction\<close>

lemma load_dicom_series_cases:
  "load_dicom_series L directory =
     (case load_dicom_series_try L directory of Inl e \<Rightarrow> load_failed e | Inr img \<Rightarrow> ([], Some img))"
  by (simp add: load_dicom_series_def load_failed_def split: sum.splits)

lemma extract_slice_cases:
  "extract_slice L image' plane index =
     (case extract_slice_try L image' plane index of Inl e \<Rightarrow> extract_failed e | Inr a \<Rightarrow> ([], Some a))"
  by (simp add: extract_slice_def extract_failed_def split: sum.splits)

text \<open>
  C6. Whatever library call raises inside \<^verbatim>\<open>load_dicom_series\<close> (listing the files,
  setting the file names, reading the series) or inside \<^verbatim>\<open>extract_slice\<close> (subscripting
  the image, which is \<^verbatim>\<open>None\<close> before a load, or converting the slice to an array), the
  function shows the error dialog with the text of the exception and returns \<open>None\<close>; a
  directory with no DICOM file gives the dialog of the \<^verbatim>\<open>ValueError\<close> the function
  raises itself. \<^verbatim>\<open>load_dicom_series\<close> returns an image exactly when the three calls
  return and the list of files is not empty, and then it is the image that was read.
\<close>

theorem library_failures_are_caught:
  "(GetGDCMSeriesFileNames L directory = Inl e \<longrightarrow> load_dicom_series L directory = load_failed e) \<and>
   (GetGDCMSeriesFileNames L directory = Inr [] \<longrightarrow>
      load_dicom_series L directory =
        load_failed (ValueError ''No DICOM files found in the selected directory.'')) \<and>
   (GetGDCMSeriesFileNames L directory = Inr names \<and> names \<noteq> [] \<and> SetFileNames L names = Inl e \<longrightarrow>
      load_dicom_series L directory = load_failed e) \<and>
   (GetGDCMSeriesFileNames L directory = Inr names \<and> names \<noteq> [] \<and> SetFileNames L names = Inr u \<and>
    Execute L names = Inl e \<longrightarrow>
      load_dicom_series L directory = load_failed e) \<and>
   (GetGDCMSeriesFileNames L directory = Inr names \<and> names \<noteq> [] \<and> SetFileNames L names = Inr u \<and>
    Execute L names = Inr img \<longrightarrow>
      load_dicom_series L directory = ([], Some img)) \<and>
   (snd (load_dicom_series L directory) \<noteq> None \<longleftrightarrow>
      (\<exists>names' u' img'. GetGDCMSeriesFileNames L directory = Inr names' \<and> names' \<noteq> [] \<and>
         SetFileNames L names' = Inr u' \<and> Execute L names' = Inr img')) \<and>
   (plane_subscript plane index sub \<longrightarrow>
      extract_slice L None plane index =
        extract_failed (none_not_subscriptable) \<and>
      (getitem L vol sub = Inl e \<longrightarrow> extract_slice L (Some vol) plane index = extract_failed e) \<and>
      (getitem L vol sub = Inr sl \<and> GetArrayFromImage L sl = Inl e \<longrightarrow>
         extract_slice L (Some vol) plane index = extract_failed e))"
proof (intro conjI impI)
  show "snd (load_dicom_series L directory) \<noteq> None \<longleftrightarrow>
      (\<exists>names' u' img'. GetGDCMSeriesFileNames L directory = Inr names' \<and> names' \<noteq> [] \<and>
         SetFileNames L names' = Inr u' \<and> Execute L names' = Inr img')"
    by (auto simp: load_dicom_series_cases load_dicom_series_try_def and_then_def load_failed_def
        split: sum.splits)
qed (auto simp: load_dicom_series_cases load_dicom_series_try_def extract_slice_cases
       extract_slice_try_def subscript_image_def plane_subscript_def and_then_def)


theorem library_failures_are_caught_witness:
  "GetGDCMSeriesFileNames stub_library ''/scans/locked'' = Inl (RuntimeError ''cannot read directory'') \<and>
   load_dicom_series stub_library ''/scans/locked'' = load_failed (RuntimeError ''cannot read directory'') \<and>
   GetGDCMSeriesFileNames stub_library ''/home'' = Inr [] \<and>
   load_dicom_series stub_library ''/home'' =
     load_failed (ValueError ''No DICOM files found in the selected directory.'') \<and>
   SetFileNames (stub_library\<lparr>SetFileNames := \<lambda>names. Inl (RuntimeError ''bad file name'')\<rparr>)
     [''ct/1.dcm'', ''ct/2.dcm''] = Inl (RuntimeError ''bad file name'') \<and>
   load_dicom_series (stub_library\<lparr>SetFileNames := \<lambda>names. Inl (RuntimeError ''bad file name'')\<rparr>)
     ''/scans/ct'' = load_failed (RuntimeError ''bad file name'') \<and>
   Execute (stub_library\<lparr>Execute := \<lambda>names. Inl (RuntimeError ''no pixel data'')\<rparr>)
     [''ct/1.dcm'', ''ct/2.dcm''] = Inl (RuntimeError ''no pixel data'') \<and>
   load_dicom_series (stub_library\<lparr>Execute := \<lambda>names. Inl (RuntimeError ''no pixel data'')\<rparr>)
     ''/scans/ct'' = load_failed (RuntimeError ''no pixel data'') \<and>
   Execute stub_library [''ct/1.dcm'', ''ct/2.dcm''] = Inr (Volume 4 3 2) \<and>
   load_dicom_series stub_library ''/scans/ct'' = ([], Some (Volume 4 3 2)) \<and>
   snd (load_dicom_series stub_library ''/scans/ct'') \<noteq> None \<and>
   plane_subscript ''coronal'' 7 (Full, At 7, Full) \<and>
   extract_slice stub_library None ''coronal'' 7 =
     extract_failed (none_not_subscriptable) \<and>
   getitem stub_library (Volume 4 3 2) (Full, At 7, Full) = Inl (RuntimeError ''index out of bounds'') \<and>
   extract_slice stub_library (Some (Volume 4 3 2)) ''coronal'' 7 =
     extract_failed (RuntimeError ''index out of bounds'') \<and>
   plane_subscript ''axial'' 1 (Full, Full, At 1) \<and>
   getitem (stub_library\<lparr>GetArrayFromImage := \<lambda>sl. Inl (RuntimeError ''out of memory'')\<rparr>)
     (Volume 4 3 2) (Full, Full, At 1) = Inr (Plane [1, 2]) \<and>
   extract_slice (stub_library\<lparr>GetArrayFromImage := \<lambda>sl. Inl (RuntimeError ''out of memory'')\<rparr>)
     (Some (Volume 4 3 2)) ''axial'' 1 = extract_failed (RuntimeError ''out of memory'')"
proof -
  let ?Ls = "stub_library\<lparr>SetFileNames := \<lambda>names. Inl (RuntimeError ''bad file name'')\<rparr>"
  let ?Le = "stub_library\<lparr>Execute := \<lambda>names. Inl (RuntimeError ''no pixel data'')\<rparr>"
  let ?La = "stub_library\<lparr>GetArrayFromImage := \<lambda>sl. Inl (RuntimeError ''out of memory'')\<rparr>"
  let ?names = "[''ct/1.dcm'', ''ct/2.dcm'']"
  have g1: "GetGDCMSeriesFileNames stub_library ''/scans/locked'' = Inl (RuntimeError ''cannot read directory'')"
    by (simp add: stub_library_def)
  have g2: "GetGDCMSeriesFileNames stub_library ''/home'' = Inr []"
    by (simp add: stub_library_def)
  have g3: "GetGDCMSeriesFileNames ?Ls ''/scans/ct'' = Inr ?names \<and> ?names \<noteq> [] \<and>
            SetFileNames ?Ls ?names = Inl (RuntimeError ''bad file name'')"
    by (simp add: stub_library_def)
  have g4: "GetGDCMSeriesFileNames ?Le ''/scans/ct'' = Inr ?names \<and> ?names \<noteq> [] \<and>
            SetFileNames ?Le ?names = Inr () \<and> Execute ?Le ?names = Inl (RuntimeError ''no pixel data'')"
    by (simp add: stub_library_def)
  have g5: "GetGDCMSeriesFileNames stub_library ''/scans/ct'' = Inr ?names \<and> ?names \<noteq> [] \<and>
            SetFileNames stub_library ?names = Inr () \<and> Execute stub_library ?names = Inr (Volume 4 3 2)"
    by (simp add: stub_library_def)
  have p1: "plane_subscript ''coronal'' 7 (Full, At 7, Full)"
    by (simp add: plane_subscript_def)
  have p2: "plane_subscript ''axial'' 1 (Full, Full, At 1)"
    by (simp add: plane_subscript_def)
  have i1: "getitem stub_library (Volume 4 3 2) (Full, At 7, Full) = Inl (RuntimeError ''index out of bounds'')"
    by (simp add: stub_library_def)
  have i2: "getitem ?La (Volume 4 3 2) (Full, Full, At 1) = Inr (Plane [1, 2]) \<and>
            GetArrayFromImage ?La (Plane [1, 2]) = Inl (RuntimeError ''out of memory'')"
    by (simp add: stub_library_def)
  note a = library_failures_are_caught
    [of stub_library "''/scans/locked''" "RuntimeError ''cannot read directory''" ?names "()"
        "Volume 4 3 2" "''coronal''" 7 "(Full, At 7, Full)" "Volume 4 3 2"]
  note b = library_failures_are_caught
    [of stub_library "''/home''" "RuntimeError ''cannot read directory''" ?names "()"
        "Volume 4 3 2" "''coronal''" 7 "(Full, At 7, Full)" "Volume 4 3 2"]
  note c = library_failures_are_caught
    [of ?Ls "''/scans/ct''" "RuntimeError ''bad file name''" ?names "()"
        "Volume 4 3 2" "''coronal''" 7 "(Full, At 7, Full)" "Volume 4 3 2"]
  note d = library_failures_are_caught
    [of ?Le "''/scans/ct''" "RuntimeError ''no pixel data''" ?names "()"
        "Volume 4 3 2" "''coronal''" 7 "(Full, At 7, Full)" "Volume 4 3 2"]
  note e = library_failures_are_caught
    [of stub_library "''/scans/ct''" "RuntimeError ''index out of bounds''" ?names "()"
        "Volume 4 3 2" "''coronal''" 7 "(Full, At 7, Full)" "Volume 4 3 2"]
  note f = library_failures_are_caught
    [of ?La "''/scans/ct''" "RuntimeError ''out of memory''" ?names "()"
        "Volume 4 3 2" "''axial''" 1 "(Full, Full, At 1)" "Volume 4 3 2" "Plane [1, 2]"]
  have r1: "load_dicom_series stub_library ''/scans/locked'' = load_failed (RuntimeError ''cannot read directory'')"
    using a g1 by blast
  have r2: "load_dicom_series stub_library ''/home'' =
     load_failed (ValueError ''No DICOM files found in the selected directory.'')"
    using b g2 by blast
  have r3: "load_dicom_series ?Ls ''/scans/ct'' = load_failed (RuntimeError ''bad file name'')"
    using c g3 by blast
  have r4: "load_dicom_series ?Le ''/scans/ct'' = load_failed (RuntimeError ''no pixel data'')"
    using d g4 by blast
  have r5: "load_dicom_series stub_library ''/scans/ct'' = ([], Some (Volume 4 3 2))"
    using e g5 by blast
  have r6: "snd (load_dicom_series stub_library ''/scans/ct'') \<noteq> None"
    using e g5 by blast
  have r7: "extract_slice stub_library None ''coronal'' 7 =
     extract_failed (none_not_subscriptable)"
    using e p1 by blast
  have r8: "extract_slice stub_library (Some (Volume 4 3 2)) ''coronal'' 7 =
     extract_failed (RuntimeError ''index out of bounds'')"
    using e p1 i1 by blast
  have r9: "extract_slice ?La (Some (Volume 4 3 2)) ''axial'' 1 = extract_failed (RuntimeError ''out of memory'')"
    using f p2 i2 by blast
  show ?thesis
    using g1 g2 g3 g4 g5 p1 p2 i1 i2 r1 r2 r3 r4 r5 r6 r7 r8 r9 by blast
qed

section \<open>Colour mapping and filtering\<close>

text \<open>
  C7. For a slice whose maximum is positive and a colour map other than \<open>gray\<close>, the image
  \<^verbatim>\<open>display_slice\<close> hands to \<^verbatim>\<open>imshow\<close> is one colour map lookup: the RGB channels of
  the colour map applied to the slice (as \<^verbatim>\<open>float32\<close>) divided by its maximum.
\<close>

theorem color_map_applied_once:
  assumes "extract_slice L image' plane index = (boxes, Some raw)"
      and "color_map \<noteq> ''gray''"
      and "0 < np_max L (astype_float32 L raw)"
  shows "display_slice L canvas' image' plane index color_map =
           (boxes,
            Some (Imshow
              (rgb_channels L
                 (get_cmap L color_map
                    (np_divide L (astype_float32 L raw) (np_max L (astype_float32 L raw)))))
              color_map))"
  using assms by (simp add: display_slice_def apply_color_map_def Let_def)

lemma stub_extract_axial:
  "extract_slice stub_library (Some (Volume 4 3 2)) ''axial'' 1 = ([], Some [1, 2])"
  by (simp add: extract_slice_def extract_slice_try_def subscript_image_def and_then_def
      stub_library_def)

theorem color_map_applied_once_witness:
  "extract_slice stub_library (Some (Volume 4 3 2)) ''axial'' 1 = ([], Some [1, 2]) \<and>
   ''jet'' \<noteq> ''gray'' \<and>
   0 < np_max stub_library (astype_float32 stub_library [1, 2]) \<and>
   display_slice stub_library None (Some (Volume 4 3 2)) ''axial'' 1 ''jet'' =
     ([],
      Some (Imshow
        (rgb_channels stub_library
           (get_cmap stub_library ''jet''
              (np_divide stub_library (astype_float32 stub_library [1, 2])
                 (np_max stub_library (astype_float32 stub_library [1, 2])))))
        ''jet''))"
proof -
  have h2: "''jet'' \<noteq> ''gray''" by simp
  have h3: "0 < np_max stub_library (astype_float32 stub_library [1, 2])"
    by (simp add: stub_library_def)
  show ?thesis
    using stub_extract_axial h2 h3
      color_map_applied_once [OF stub_extract_axial h2 h3, of None]
    by blast
qed

text \<open>
  C8. \<^verbatim>\<open>apply_filter\<close> returns its input for every filter type other than \<open>Gaussian\<close>;
  and with the filter variable at \<open>None\<close>, \<^verbatim>\<open>capture_snapshot\<close> makes the photo it keeps
  on the snapshot canvas from the extracted slice as it is.
\<close>

theorem apply_filter_identity:
  "(filter_type \<noteq> ''Gaussian'' \<longrightarrow> apply_filter L image' filter_type = image') \<and>
   (filter_var s = ''None'' \<and> current_indices s plane = Some index \<and>
    extract_slice L (self_image s) plane index = (boxes, Some raw) \<longrightarrow>
      capture_snapshot L s plane =
        and_then (make_photo L raw) (\<lambda>tk_image.
          Inr (s\<lparr>snapshot_canvas := (snapshot_canvas s)(plane := Some tk_image),
                 dialogs := dialogs s @ boxes\<rparr>)))"
  by (simp add: apply_filter_def capture_snapshot_def and_then_def dict_get_def)

lemma stub_extract_axial0:
  "extract_slice stub_library (self_image stub_loaded) ''axial'' 0 = ([], Some [0, 1])"
  by (simp add: extract_slice_def extract_slice_try_def subscript_image_def and_then_def
      stub_library_def stub_loaded_def)

theorem apply_filter_identity_witness:
  "''None'' \<noteq> ''Gaussian'' \<and> apply_filter stub_library [0, 1] ''None'' = [0, 1] \<and>
   filter_var stub_loaded = ''None'' \<and> current_indices stub_loaded ''axial'' = Some 0 \<and>
   extract_slice stub_library (self_image stub_loaded) ''axial'' 0 = ([], Some [0, 1]) \<and>
   capture_snapshot stub_library stub_loaded ''axial'' =
     and_then (make_photo stub_library [0, 1]) (\<lambda>tk_image.
       Inr (stub_loaded\<lparr>snapshot_canvas := (snapshot_canvas stub_loaded)(''axial'' := Some tk_image),
              dialogs := dialogs stub_loaded @ []\<rparr>))"
proof -
  have h1: "''None'' \<noteq> ''Gaussian''" by simp
  have h2: "filter_var stub_loaded = ''None'' \<and> current_indices stub_loaded ''axial'' = Some 0"
    by (simp add: stub_loaded_def)
  show ?thesis
    using h1 h2 stub_extract_axial0
      apply_filter_identity [of "''None''" stub_library "[0, 1]" stub_loaded "''axial''" 0 "[]" "[0, 1]"]
    by blast
qed

text \<open>
  The views do not depend on the filter variable: \<^verbatim>\<open>update_filter\<close> redraws them through
  \<^verbatim>\<open>display_slice\<close>, which never calls \<^verbatim>\<open>apply_filter\<close>.
\<close>

lemma update_view_filter_var:
  "update_view L (s\<lparr>filter_var := f\<rparr>) plane =
     map_sum id (\<lambda>t. t\<lparr>filter_var := f\<rparr>) (update_view L s plane)"
  by (simp add: update_view_def and_then_def dict_get_def split: option.splits prod.splits)

lemma for_each_update_view_filter_var:
  "for_each (update_view L) ps (s\<lparr>filter_var := f\<rparr>) =
     map_sum id (\<lambda>t. t\<lparr>filter_var := f\<rparr>) (for_each (update_view L) ps s)"
proof (induction ps arbitrary: s)
  case Nil
  then show ?case by simp
next
  case (Cons p ps)
  show ?case
  proof (cases "update_view L s p")
    case (Inl e)
    then show ?thesis by (simp add: update_view_filter_var and_then_def)
  next
    case (Inr t)
    then show ?thesis by (simp add: update_view_filter_var and_then_def Cons.IH)
  qed
qed

lemma views_ignore_filter:
  "view_after (select_filter L s choice) plane = view_after (update_all_views L s) plane"
  by (cases "for_each (update_view L) planes s")
     (simp_all add: select_filter_def update_filter_def update_all_views_def
        for_each_update_view_filter_var view_after_def)

text \<open>
  C3, on the loaded volume with the colour map \<open>gray\<close>: the axial slice at index 0 is
  \<open>[0, 1]\<close> and its blur is \<open>[0, 1 / 2]\<close>; after the filter \<open>Gaussian\<close> has been selected the
  axial view shows the slice itself, not its blur.
\<close>

theorem gaussian_selected_view_not_blurred:
  "extract_slice stub_library (self_image stub_loaded) ''axial'' 0 = ([], Some [0, 1]) \<and>
   gaussian_filter stub_library [0, 1] 1 = [0, 1 / 2] \<and>
   view_after (select_filter stub_library stub_loaded ''Gaussian'') ''axial'' =
     Some (Imshow [0, 1] ''gray'')"
  by (simp add: select_filter_def update_filter_def update_all_views_def update_view_def
      planes_def and_then_def dict_get_def stub_loaded_def display_slice_def extract_slice_def
      extract_slice_try_def subscript_image_def stub_library_def view_after_def)

section \<open>The initial state, and what the handlers keep\<close>

lemma init_app_sliders:
  "list_all (\<lambda>p. max_indices init_app p = Some (scroll_to init_app p)) planes"
  by (simp add: init_app_def planes_def)

lemma init_app_in_range: "in_range init_app"
  by (simp add: in_range_def init_app_def planes_def)

lemma change_slice_has_planes:
  "has_planes s \<Longrightarrow> returns (change_slice L s direction) has_planes"
proof -
  assume h: "has_planes s"
  then obtain ca ma cc mc cs ms where k:
    "current_indices s ''axial'' = Some ca" "max_indices s ''axial'' = Some ma"
    "current_indices s ''coronal'' = Some cc" "max_indices s ''coronal'' = Some mc"
    "current_indices s ''sagittal'' = Some cs" "max_indices s ''sagittal'' = Some ms"
    unfolding has_planes_iff by blast
  from change_slice_eq [OF k] obtain c b where
    "change_slice L s direction =
     Inr (s\<lparr>current_indices := (current_indices s)
            (''axial'' \<mapsto> step_index ca direction ma,
             ''coronal'' \<mapsto> step_index cc direction mc,
             ''sagittal'' \<mapsto> step_index cs direction ms),
            canvas := c, dialogs := b\<rparr>)" by blast
  then show ?thesis using k by (simp add: returns_def has_planes_iff)
qed

lemma on_scroll_has_planes:
  "has_planes s \<Longrightarrow> returns (on_scroll L s plane index) has_planes"
proof -
  assume h: "has_planes s"
  from on_scroll_eq [OF h] obtain c b where
    "on_scroll L s plane index =
     Inr (s\<lparr>current_indices := (current_indices s)(plane \<mapsto> index), canvas := c, dialogs := b\<rparr>)"
    by blast
  then show ?thesis using h by (auto simp: returns_def has_planes_def planes_def)
qed

lemma load_dicom_in_range:
  assumes "dicom_dir \<noteq> []" and "load_dicom_series L dicom_dir = (boxes, Some img)"
      and "GetSize L img = (sx, sy, sz)" and "0 < sx" "0 < sy" "0 < sz"
  shows "returns (load_dicom L s dicom_dir)
           (\<lambda>s'. in_range s' \<and> list_all (\<lambda>p. max_indices s' p = Some (scroll_to s' p)) planes)"
  using load_dicom_success [OF assms(1-3), of s] assms(4-6)
  by (auto simp: returns_def in_range_def planes_def split: sum.splits)

end
